theory Spec2Isabelle
  imports Complex_Main
begin

section \<open>Data model\<close>

text \<open>
  The sensor client of alertR: \<^verbatim>\<open>sensorClientRaspberryPi/lib/sensor.py\<close> holds the
  sensor classes and the polling loop \<^verbatim>\<open>SensorExecuter.execute\<close>;
  \<^verbatim>\<open>managerClientDatabase/lib/localServer.py\<close> holds the local relay
  \<^verbatim>\<open>LocalServerSession.handle\<close>. Python integers are unbounded and are modelled by
  \<^typ>\<open>int\<close>; every \<^verbatim>\<open>int(time.time())\<close> is an input of type \<^typ>\<open>int\<close>; a temperature
  (a finite Python float) is modelled by the real number it denotes, whose order the float
  comparisons follow.
\<close>

text \<open>
  Modelled from the spec: the enumerations \<^verbatim>\<open>SensorDataType\<close> and \<^verbatim>\<open>Ordering\<close> are
  imported from \<^verbatim>\<open>localObjects\<close>, which is not among the sources. The spec gives
  \<^verbatim>\<open>sensorDataType \<in> {NONE, INTEGER, FLOAT}\<close> and \<^verbatim>\<open>ordering \<in> {LT, EQ, GT}\<close>. The
  attribute \<^verbatim>\<open>ordering\<close> is an ordinary Python attribute, so a value outside the
  enumeration is kept as \<open>OtherOrdering\<close>: the source has a branch for it.
\<close>

datatype SensorDataType = NONE | INTEGER | FLOAT

datatype Ordering = LT | EQ | GT | OtherOrdering int

datatype sensor_data = NoData | IntData int | FloatData real

text \<open>
  \<^verbatim>\<open>SensorAlert\<close> and \<^verbatim>\<open>StateChange\<close> (also from \<^verbatim>\<open>localObjects\<close>) with the attributes
  that \<^verbatim>\<open>sensor.py\<close> assigns. The prefixes keep the field names apart from those of the
  sensor.
\<close>

record SensorAlert =
  sa_clientSensorId :: int
  sa_state :: int
  sa_hasOptionalData :: bool
  sa_optionalData :: "(string \<times> string) list option"
  sa_changeState :: bool
  sa_hasLatestData :: bool
  sa_dataType :: SensorDataType
  sa_sensorData :: sensor_data

record StateChange =
  sc_clientSensorId :: int
  sc_state :: int
  sc_dataType :: SensorDataType
  sc_sensorData :: sensor_data

text \<open>
  The attributes of \<^verbatim>\<open>_PollingSensor\<close>. A subclass is a record extension. \<^verbatim>\<open>id\<close> is
  written \<open>id_attr\<close>.
\<close>

record PollingSensor =
  id_attr :: int
  description :: string
  alertDelay :: int
  state :: int
  triggerState :: int
  alertLevels :: "int list"
  triggerAlert :: bool
  triggerAlertNormal :: bool
  sensorDataType :: SensorDataType
  sensorData :: sensor_data
  hasLatestData :: bool
  changeState :: bool
  hasOptionalData :: bool
  optionalData :: "(string \<times> string) list option"
  handlesStateMsgs :: bool

section \<open>RaspberryPiGPIOPollingSensor\<close>

record RaspberryPiGPIOPollingSensor = PollingSensor +
  gpioPin :: int
  currStateCtr :: int
  thresStateCtr :: int

text \<open>
  \<^verbatim>\<open>updateState\<close>; the first argument is \<^verbatim>\<open>GPIO.input\<close>, a function from the pin number
  to the level read.
\<close>

definition GPIOPolling_updateState ::
  "(int \<Rightarrow> int) \<Rightarrow> RaspberryPiGPIOPollingSensor \<Rightarrow> RaspberryPiGPIOPollingSensor" where
  "GPIOPolling_updateState GPIO_input s =
     (let currState = GPIO_input (gpioPin s) in
      if currState \<noteq> state s then
        (let s1 = s\<lparr>currStateCtr := currStateCtr s + 1\<rparr> in
         if currStateCtr s1 \<ge> thresStateCtr s1 then s1\<lparr>state := currState\<rparr> else s1)
      else s\<lparr>currStateCtr := 0\<rparr>)"

definition GPIOPolling_getState :: "RaspberryPiGPIOPollingSensor \<Rightarrow> int" where
  "GPIOPolling_getState s = state s"

definition GPIOPolling_forceSendAlert ::
  "RaspberryPiGPIOPollingSensor \<Rightarrow> SensorAlert option \<times> RaspberryPiGPIOPollingSensor" where
  "GPIOPolling_forceSendAlert s = (None, s)"

definition GPIOPolling_forceSendState ::
  "RaspberryPiGPIOPollingSensor \<Rightarrow> StateChange option \<times> RaspberryPiGPIOPollingSensor" where
  "GPIOPolling_forceSendState s = (None, s)"

text \<open>
  Repeated calls of \<^verbatim>\<open>updateState\<close>, one per level read from the sensor's pin, oldest
  first.
\<close>

fun GPIOPolling_updates ::
  "int list \<Rightarrow> RaspberryPiGPIOPollingSensor \<Rightarrow> RaspberryPiGPIOPollingSensor" where
  "GPIOPolling_updates [] s = s"
| "GPIOPolling_updates (r # rs) s =
     GPIOPolling_updates rs (GPIOPolling_updateState (\<lambda>pin. r) s)"

text \<open>A sensor on pin 11 that reads 0, with a zeroed read counter and a threshold of 3.\<close>

definition gpio_sensor0 :: RaspberryPiGPIOPollingSensor where
  "gpio_sensor0 =
     \<lparr>id_attr = 0, description = ''door'', alertDelay = 0, state = 0, triggerState = 1,
      alertLevels = [0], triggerAlert = True, triggerAlertNormal = False,
      sensorDataType = NONE, sensorData = NoData, hasLatestData = False,
      changeState = True, hasOptionalData = False, optionalData = None,
      handlesStateMsgs = False, gpioPin = 11, currStateCtr = 0, thresStateCtr = 3\<rparr>"

section \<open>RaspberryPiGPIOInterruptSensor\<close>

text \<open>
  The attributes that \<^verbatim>\<open>_interruptCallback\<close> and \<^verbatim>\<open>updateState\<close> read or write.
  \<^verbatim>\<open>_internalState\<close> is written \<open>internalState\<close>. The attributes \<^verbatim>\<open>fileName\<close>,
  \<^verbatim>\<open>gpioPin\<close>, \<^verbatim>\<open>edge\<close> and \<^verbatim>\<open>pulledUpOrDown\<close> are used by \<^verbatim>\<open>initializeSensor\<close>
  and by the log lines only.
\<close>

record RaspberryPiGPIOInterruptSensor = PollingSensor +
  delayBetweenTriggers :: int
  timeSensorTriggered :: int
  lastTimeTriggered :: int
  edgeCountBeforeTrigger :: int
  edgeCounter :: int
  internalState :: int

text \<open>\<^verbatim>\<open>_interruptCallback\<close>; the first argument is \<^verbatim>\<open>int(time.time())\<close>.\<close>

definition interruptCallback ::
  "int \<Rightarrow> RaspberryPiGPIOInterruptSensor \<Rightarrow> RaspberryPiGPIOInterruptSensor" where
  "interruptCallback utcTimestamp s =
     (if utcTimestamp - lastTimeTriggered s > delayBetweenTriggers s then
        s\<lparr>edgeCounter := 1, lastTimeTriggered := utcTimestamp\<rparr>
      else
        (let s1 = s\<lparr>edgeCounter := edgeCounter s + 1\<rparr> in
         if edgeCounter s1 \<ge> edgeCountBeforeTrigger s1
         then s1\<lparr>internalState := triggerState s1\<rparr>
         else s1))"

definition GPIOInterrupt_getState :: "RaspberryPiGPIOInterruptSensor \<Rightarrow> int" where
  "GPIOInterrupt_getState s = state s"

definition GPIOInterrupt_updateState ::
  "int \<Rightarrow> RaspberryPiGPIOInterruptSensor \<Rightarrow> RaspberryPiGPIOInterruptSensor" where
  "GPIOInterrupt_updateState utcTimestamp s =
     (let s1 = (if state s = triggerState s
                   \<and> utcTimestamp - lastTimeTriggered s > timeSensorTriggered s
                then s\<lparr>internalState := 1 - triggerState s\<rparr>
                else s)
      in s1\<lparr>state := internalState s1\<rparr>)"

definition GPIOInterrupt_forceSendAlert ::
  "RaspberryPiGPIOInterruptSensor \<Rightarrow> SensorAlert option \<times> RaspberryPiGPIOInterruptSensor" where
  "GPIOInterrupt_forceSendAlert s = (None, s)"

definition GPIOInterrupt_forceSendState ::
  "RaspberryPiGPIOInterruptSensor \<Rightarrow> StateChange option \<times> RaspberryPiGPIOInterruptSensor" where
  "GPIOInterrupt_forceSendState s = (None, s)"

text \<open>A sequence of interrupts, given by the timestamps of the callbacks, oldest first.\<close>

fun interruptCallbacks ::
  "int list \<Rightarrow> RaspberryPiGPIOInterruptSensor \<Rightarrow> RaspberryPiGPIOInterruptSensor" where
  "interruptCallbacks [] s = s"
| "interruptCallbacks (t # ts) s = interruptCallbacks ts (interruptCallback t s)"

text \<open>
  The sensor as \<^verbatim>\<open>__init__\<close> and \<^verbatim>\<open>initializeSensor\<close> leave it (normal state, edge
  counter 0, last trigger time 0), configured to trigger at level 1 after 3 edges, with 10
  seconds between triggers and 5 seconds of triggered time.
\<close>

definition irq_sensor0 :: RaspberryPiGPIOInterruptSensor where
  "irq_sensor0 =
     \<lparr>id_attr = 1, description = ''motion'', alertDelay = 0, state = 0, triggerState = 1,
      alertLevels = [0], triggerAlert = True, triggerAlertNormal = False,
      sensorDataType = NONE, sensorData = NoData, hasLatestData = False,
      changeState = True, hasOptionalData = False, optionalData = None,
      handlesStateMsgs = False, delayBetweenTriggers = 10, timeSensorTriggered = 5,
      lastTimeTriggered = 0, edgeCountBeforeTrigger = 3, edgeCounter = 0,
      internalState = 0\<rparr>"

text \<open>
  The same sensor after three edges at the times 1000, 1001 and 1002 and a poll at 1002:
  it is triggered.
\<close>

definition irq_sensor_triggered :: RaspberryPiGPIOInterruptSensor where
  "irq_sensor_triggered =
     GPIOInterrupt_updateState 1002 (interruptCallbacks [1000, 1001, 1002] irq_sensor0)"

section \<open>RaspberryPiDS18b20Sensor\<close>

text \<open>
  \<^verbatim>\<open>ordering\<close> is written \<open>ordering_attr\<close> and \<^verbatim>\<open>_sensorData\<close> is written
  \<open>priv_sensorData\<close>. \<^verbatim>\<open>_sensorData\<close> is a float whenever \<^verbatim>\<open>updateState\<close> runs:
  \<^verbatim>\<open>initializeSensor\<close> fails (and the client does not start) unless the first read gave
  one, and \<^verbatim>\<open>_updateData\<close> only ever stores a float. \<^verbatim>\<open>sensorFile\<close>, \<^verbatim>\<open>sensorName\<close>,
  \<^verbatim>\<open>fileName\<close> and the semaphore \<^verbatim>\<open>updateLock\<close> are left out: they name the file and
  guard the copy of one float.
\<close>

record RaspberryPiDS18b20Sensor = PollingSensor +
  interval :: int
  lastUpdate :: int
  hasThreshold :: bool
  threshold :: real
  ordering_attr :: Ordering
  refreshInterval :: int
  lastTemperatureUpdate :: int
  priv_sensorData :: real

text \<open>
  \<^verbatim>\<open>_updateData\<close>, run by the background thread. Its argument is what the regular
  expression finds in the second line of the sensor file, divided by 1000; \<open>None\<close> when
  the file cannot be read or parsed, which the method only logs.
\<close>

definition DS18b20_updateData ::
  "real option \<Rightarrow> RaspberryPiDS18b20Sensor \<Rightarrow> RaspberryPiDS18b20Sensor" where
  "DS18b20_updateData parsed s =
     (case parsed of Some temp \<Rightarrow> s\<lparr>priv_sensorData := temp\<rparr> | None \<Rightarrow> s)"

definition DS18b20_getState :: "RaspberryPiDS18b20Sensor \<Rightarrow> int" where
  "DS18b20_getState s = state s"

text \<open>
  The threshold check of \<^verbatim>\<open>updateState\<close> (the body of \<^verbatim>\<open>if self.hasThreshold\<close>); \<open>v\<close> is
  the float that \<^verbatim>\<open>self.sensorData\<close> holds.
\<close>

definition DS18b20_checkThreshold ::
  "real \<Rightarrow> RaspberryPiDS18b20Sensor \<Rightarrow> RaspberryPiDS18b20Sensor" where
  "DS18b20_checkThreshold v s =
     (if state s = triggerState s then
        (case ordering_attr s of
           LT \<Rightarrow> if v \<ge> threshold s then s\<lparr>state := 1 - triggerState s\<rparr> else s
         | EQ \<Rightarrow> if v \<noteq> threshold s then s\<lparr>state := 1 - triggerState s\<rparr> else s
         | GT \<Rightarrow> if v \<le> threshold s then s\<lparr>state := 1 - triggerState s\<rparr> else s
         | OtherOrdering k \<Rightarrow> s)
      else
        (case ordering_attr s of
           LT \<Rightarrow> if v < threshold s then s\<lparr>state := triggerState s\<rparr> else s
         | EQ \<Rightarrow> if v = threshold s then s\<lparr>state := triggerState s\<rparr> else s
         | GT \<Rightarrow> if v > threshold s then s\<lparr>state := triggerState s\<rparr> else s
         | OtherOrdering k \<Rightarrow> s))"

text \<open>
  \<^verbatim>\<open>updateState\<close>; the first argument is \<^verbatim>\<open>int(time.time())\<close>. The second component of
  the result tells whether the call started the thread that runs \<^verbatim>\<open>_updateData\<close>.
\<close>

definition DS18b20_updateState ::
  "int \<Rightarrow> RaspberryPiDS18b20Sensor \<Rightarrow> RaspberryPiDS18b20Sensor \<times> bool" where
  "DS18b20_updateState utcTimestamp s =
     (let threadStarted = (utcTimestamp - lastTemperatureUpdate s > interval s);
          s1 = (if threadStarted then s\<lparr>lastTemperatureUpdate := utcTimestamp\<rparr> else s);
          s2 = s1\<lparr>sensorData := FloatData (priv_sensorData s1)\<rparr>
      in if hasThreshold s2
         then (DS18b20_checkThreshold (priv_sensorData s1) s2, threadStarted)
         else (s2, threadStarted))"

definition DS18b20_forceSendAlert ::
  "RaspberryPiDS18b20Sensor \<Rightarrow> SensorAlert option \<times> RaspberryPiDS18b20Sensor" where
  "DS18b20_forceSendAlert s = (None, s)"

definition DS18b20_forceSendState ::
  "int \<Rightarrow> RaspberryPiDS18b20Sensor \<Rightarrow> StateChange option \<times> RaspberryPiDS18b20Sensor" where
  "DS18b20_forceSendState utcTimestamp s =
     (if utcTimestamp - lastUpdate s > interval s then
        (let s1 = s\<lparr>lastUpdate := utcTimestamp\<rparr> in
         (Some \<lparr>sc_clientSensorId = id_attr s1,
                sc_state = (if state s1 = triggerState s1 then 1 else 0),
                sc_dataType = sensorDataType s1,
                sc_sensorData = sensorData s1\<rparr>, s1))
      else (None, s))"

text \<open>
  Calls of \<^verbatim>\<open>updateState\<close> at the given times, oldest first: the times of the calls that
  started a background read.
\<close>

fun DS18b20_refreshes :: "int list \<Rightarrow> RaspberryPiDS18b20Sensor \<Rightarrow> int list" where
  "DS18b20_refreshes [] s = []"
| "DS18b20_refreshes (t # ts) s =
     (if snd (DS18b20_updateState t s) then [t] else [])
       @ DS18b20_refreshes ts (fst (DS18b20_updateState t s))"

text \<open>
  A temperature sensor that reports every 5 seconds and triggers above 30 degrees. The
  refresh interval is the 60 seconds that \<^verbatim>\<open>__init__\<close> sets.
\<close>

definition ds_sensor0 :: RaspberryPiDS18b20Sensor where
  "ds_sensor0 =
     \<lparr>id_attr = 2, description = ''temperature'', alertDelay = 0, state = 0,
      triggerState = 1, alertLevels = [0], triggerAlert = True, triggerAlertNormal = True,
      sensorDataType = FLOAT, sensorData = FloatData 22.5, hasLatestData = True,
      changeState = True, hasOptionalData = True,
      optionalData = Some [(''sensorName'', ''28-000005e2fdc3'')],
      handlesStateMsgs = False, interval = 5, lastUpdate = 0, hasThreshold = True,
      threshold = 30, ordering_attr = GT, refreshInterval = 60,
      lastTemperatureUpdate = 0, priv_sensorData = 22.5\<rparr>"

section \<open>SensorExecuter\<close>

text \<open>
  What \<^verbatim>\<open>execute\<close> hands to an \<^verbatim>\<open>AsynchronousSender\<close> thread: a sensor alert, a state
  change, or the request to send the state of all sensors.
\<close>

datatype dispatch =
    sendSensorAlert SensorAlert
  | sendStateChange StateChange
  | sendSensorsState

text \<open>
  The methods of a sensor class, for sensors of any subclass of \<^verbatim>\<open>_PollingSensor\<close> (any
  extension \<open>'z\<close> of the record). \<open>'e\<close> is what the methods read from outside the object
  during a cycle (the clock, the pins). The methods that may write the object return it.
\<close>

record ('z, 'e) sensor_methods =
  getState :: "'z PollingSensor_scheme \<Rightarrow> int"
  updateState :: "'e \<Rightarrow> 'z PollingSensor_scheme \<Rightarrow> 'z PollingSensor_scheme"
  forceSendAlert ::
    "'e \<Rightarrow> 'z PollingSensor_scheme \<Rightarrow> SensorAlert option \<times> 'z PollingSensor_scheme"
  forceSendState ::
    "'e \<Rightarrow> 'z PollingSensor_scheme \<Rightarrow> StateChange option \<times> 'z PollingSensor_scheme"

text \<open>
  The sensor alert and the state change that \<^verbatim>\<open>execute\<close> builds from the sensor's
  attributes; the source writes each of them out twice, with the state 1 and with the
  state 0.
\<close>

definition newSensorAlert :: "'z PollingSensor_scheme \<Rightarrow> int \<Rightarrow> SensorAlert" where
  "newSensorAlert sensor st =
     \<lparr>sa_clientSensorId = id_attr sensor,
      sa_state = st,
      sa_hasOptionalData = hasOptionalData sensor,
      sa_optionalData = optionalData sensor,
      sa_changeState = changeState sensor,
      sa_hasLatestData = hasLatestData sensor,
      sa_dataType = sensorDataType sensor,
      sa_sensorData = sensorData sensor\<rparr>"

definition newStateChange :: "'z PollingSensor_scheme \<Rightarrow> int \<Rightarrow> StateChange" where
  "newStateChange sensor st =
     \<lparr>sc_clientSensorId = id_attr sensor,
      sc_state = st,
      sc_dataType = sensorDataType sensor,
      sc_sensorData = sensorData sensor\<rparr>"

text \<open>
  The body of the first \<^verbatim>\<open>for sensor in self.sensors\<close> loop. It returns the sensor, the
  last value of the local \<^verbatim>\<open>oldState\<close>, and what it dispatched, in order.
\<close>

definition poll_sensor ::
  "('z, 'e) sensor_methods \<Rightarrow> 'e \<Rightarrow> 'z PollingSensor_scheme
     \<Rightarrow> 'z PollingSensor_scheme \<times> int \<times> dispatch list" where
  "poll_sensor m e sensor0 =
     (let oldState = getState m sensor0;
          sensor1 = updateState m e sensor0;
          currentState = getState m sensor1
      in case forceSendAlert m e sensor1 of
           (Some sensorAlert, sensor) \<Rightarrow>
             (sensor, currentState, [sendSensorAlert sensorAlert])
         | (None, sensor) \<Rightarrow>
             if oldState = currentState then (sensor, oldState, [])
             else if handlesStateMsgs sensor then (sensor, oldState, [])
             else if currentState = triggerState sensor then
               (if triggerAlert sensor
                then (sensor, oldState, [sendSensorAlert (newSensorAlert sensor 1)])
                else (sensor, oldState, [sendStateChange (newStateChange sensor 1)]))
             else
               (if triggerAlertNormal sensor
                then (sensor, oldState, [sendSensorAlert (newSensorAlert sensor 0)])
                else (sensor, oldState, [sendStateChange (newStateChange sensor 0)])))"

text \<open>The first loop over all sensors: the sensors afterwards and everything dispatched.\<close>

fun poll_sensors ::
  "('z, 'e) sensor_methods \<Rightarrow> 'e \<Rightarrow> 'z PollingSensor_scheme list
     \<Rightarrow> 'z PollingSensor_scheme list \<times> dispatch list" where
  "poll_sensors m e [] = ([], [])"
| "poll_sensors m e (sensor # rest) =
     (let r = poll_sensor m e sensor;
          rs = poll_sensors m e rest
      in (fst r # fst rs, snd (snd r) @ snd rs))"

text \<open>The second loop: every sensor is asked for a forced state change.\<close>

fun force_states ::
  "('z, 'e) sensor_methods \<Rightarrow> 'e \<Rightarrow> 'z PollingSensor_scheme list
     \<Rightarrow> 'z PollingSensor_scheme list \<times> dispatch list" where
  "force_states m e [] = ([], [])"
| "force_states m e (sensor # rest) =
     (let r = forceSendState m e sensor;
          rs = force_states m e rest
      in (snd r # fst rs,
          (case fst r of Some stateChange \<Rightarrow> [sendStateChange stateChange] | None \<Rightarrow> [])
            @ snd rs))"

text \<open>
  The state of \<^verbatim>\<open>execute\<close> between two rounds of its \<^verbatim>\<open>while True\<close> loop, and what one
  round reads: \<^verbatim>\<open>self.connection.isConnected()\<close>, the outside world of the sensors, and
  the \<^verbatim>\<open>int(time.time())\<close> taken after the two loops.
\<close>

record 'z executer =
  sensors :: "'z PollingSensor_scheme list"
  lastFullStateSent :: int

record 'e cycle =
  isConnected :: bool
  env :: 'e
  cycleTimestamp :: int

text \<open>One round of the \<^verbatim>\<open>while True\<close> loop: what it dispatched and the state after it.\<close>

definition execute_cycle ::
  "('z, 'e) sensor_methods \<Rightarrow> 'e cycle \<Rightarrow> 'z executer \<Rightarrow> dispatch list \<times> 'z executer" where
  "execute_cycle m c st =
     (if \<not> isConnected c then ([], st)
      else
        (let polled = poll_sensors m (env c) (sensors st);
             forced = force_states m (env c) (fst polled)
         in if cycleTimestamp c - lastFullStateSent st > 60
            then (snd polled @ snd forced @ [sendSensorsState],
                  \<lparr>sensors = fst forced, lastFullStateSent = cycleTimestamp c\<rparr>)
            else (snd polled @ snd forced,
                  \<lparr>sensors = fst forced, lastFullStateSent = lastFullStateSent st\<rparr>)))"

text \<open>
  The loop never ends by itself; a run is given by the rounds it has made so far. The result
  lists what each round dispatched.
\<close>

fun execute_loop ::
  "('z, 'e) sensor_methods \<Rightarrow> 'e cycle list \<Rightarrow> 'z executer
     \<Rightarrow> dispatch list list \<times> 'z executer" where
  "execute_loop m [] st = ([], st)"
| "execute_loop m (c # cs) st =
     (let r = execute_cycle m c st;
          rs = execute_loop m cs (snd r)
      in (fst r # fst rs, snd rs))"

text \<open>\<^verbatim>\<open>execute\<close> starts with \<^verbatim>\<open>lastFullStateSent = 0\<close>.\<close>

definition execute ::
  "('z, 'e) sensor_methods \<Rightarrow> 'e cycle list \<Rightarrow> 'z PollingSensor_scheme list
     \<Rightarrow> dispatch list list \<times> 'z executer" where
  "execute m cs ss = execute_loop m cs \<lparr>sensors = ss, lastFullStateSent = 0\<rparr>"

text \<open>The timestamps of the rounds that dispatched a full sensor state.\<close>

fun snapshot_times :: "'e cycle list \<Rightarrow> dispatch list list \<Rightarrow> int list" where
  "snapshot_times (c # cs) (d # ds) =
     (if sendSensorsState \<in> set d then [cycleTimestamp c] else []) @ snapshot_times cs ds"
| "snapshot_times cs ds = []"

text \<open>
  A list of times in which each is more than 60 seconds after the one before it, the
  first after \<open>l\<close>.
\<close>

fun spaced :: "int \<Rightarrow> int list \<Rightarrow> bool" where
  "spaced l [] = True"
| "spaced l (t # ts) = (t - l > 60 \<and> spaced t ts)"

text \<open>
  The methods of \<^verbatim>\<open>RaspberryPiGPIOPollingSensor\<close>; the outside world is \<^verbatim>\<open>GPIO.input\<close>.
\<close>

definition GPIOPolling_methods ::
  "(\<lparr>gpioPin :: int, currStateCtr :: int, thresStateCtr :: int\<rparr>, int \<Rightarrow> int) sensor_methods"
  where
  "GPIOPolling_methods =
     \<lparr>getState = GPIOPolling_getState,
      updateState = GPIOPolling_updateState,
      forceSendAlert = (\<lambda>e. GPIOPolling_forceSendAlert),
      forceSendState = (\<lambda>e. GPIOPolling_forceSendState)\<rparr>"

text \<open>Rounds with a connection, at the given times, in which every pin reads 0.\<close>

definition quiet_cycle :: "int \<Rightarrow> (int \<Rightarrow> int) cycle" where
  "quiet_cycle t = \<lparr>isConnected = True, env = (\<lambda>pin. 0), cycleTimestamp = t\<rparr>"

text \<open>
  A subclass of the polling sensor that overrides \<^verbatim>\<open>forceSendAlert\<close> to return the given
  alert on every call.
\<close>

definition forcing_methods ::
  "SensorAlert \<Rightarrow>
   (\<lparr>gpioPin :: int, currStateCtr :: int, thresStateCtr :: int\<rparr>, int \<Rightarrow> int) sensor_methods"
  where
  "forcing_methods a = GPIOPolling_methods\<lparr>forceSendAlert := (\<lambda>e s. (Some a, s))\<rparr>"

text \<open>The polling sensor with a threshold of one read, and the same with its own messaging.\<close>

definition gpio_sensor1 :: RaspberryPiGPIOPollingSensor where
  "gpio_sensor1 = gpio_sensor0\<lparr>thresStateCtr := 1\<rparr>"

definition gpio_sensor2 :: RaspberryPiGPIOPollingSensor where
  "gpio_sensor2 = gpio_sensor0\<lparr>handlesStateMsgs := True, thresStateCtr := 1\<rparr>"

section \<open>LocalServerSession\<close>

text \<open>
  A decoded JSON value. An object is the dictionary that \<^verbatim>\<open>json.loads\<close> returns, as a
  list of its items.
\<close>

datatype json =
    JNull
  | JBool bool
  | JInt int
  | JFloat real
  | JString string
  | JArray "json list"
  | JObject "(string \<times> json) list"

datatype py_error = ValueError | KeyError | TypeError | NameError | UnicodeEncodeError

text \<open>
  \<^verbatim>\<open>x[k]\<close> for a string key: a dictionary raises \<^verbatim>\<open>KeyError\<close> for a missing key, every
  other JSON value raises \<^verbatim>\<open>TypeError\<close>.
\<close>

fun py_getitem :: "json \<Rightarrow> string \<Rightarrow> py_error + json" where
  "py_getitem (JObject items) k =
     (case map_of items k of Some v \<Rightarrow> Inr v | None \<Rightarrow> Inl KeyError)"
| "py_getitem j k = Inl TypeError"

text \<open>
  Python's conversions \<^verbatim>\<open>str\<close>, \<^verbatim>\<open>float\<close> and \<^verbatim>\<open>int\<close> on a decoded JSON value are taken
  as given: each returns a value or raises.
\<close>

record builtins =
  py_str :: "json \<Rightarrow> py_error + string"
  py_float :: "json \<Rightarrow> py_error + real"
  py_int :: "json \<Rightarrow> py_error + int"

text \<open>
  The two dictionaries that \<^verbatim>\<open>handle\<close> answers with; what is sent is their
  \<^verbatim>\<open>json.dumps\<close>.
\<close>

definition error_response :: "int \<Rightarrow> json \<Rightarrow> string \<Rightarrow> json" where
  "error_response utcTimestamp msg reason =
     JObject [(''serverTime'', JInt utcTimestamp), (''message'', msg),
              (''error'', JString reason)]"

definition ok_response :: "int \<Rightarrow> json \<Rightarrow> json" where
  "ok_response utcTimestamp msg =
     JObject [(''serverTime'', JInt utcTimestamp), (''message'', msg),
              (''payload'', JObject [(''type'', JString ''response''),
                                     (''result'', JString ''ok'')])]"

text \<open>
  \<^verbatim>\<open>incomingMessage["message"]\<close> where the local variable \<^verbatim>\<open>incomingMessage\<close> may not be
  bound yet (\<open>None\<close>): Python then raises \<^verbatim>\<open>UnboundLocalError\<close>, a \<^verbatim>\<open>NameError\<close>.
\<close>

definition incomingMessage_message :: "json option \<Rightarrow> py_error + json" where
  "incomingMessage_message incomingMessage =
     (case incomingMessage of
        None \<Rightarrow> Inl NameError
      | Some j \<Rightarrow> py_getitem j ''message'')"

text \<open>
  The blocks \<^verbatim>\<open>try: ... self.request.send(json.dumps(message)) except Exception: pass\<close>:
  the list of what is handed to \<^verbatim>\<open>send\<close>. Building the dictionary evaluates
  \<^verbatim>\<open>incomingMessage["message"]\<close>; when that raises, the \<^verbatim>\<open>except\<close> swallows it and nothing
  is sent.
\<close>

definition send_error :: "int \<Rightarrow> json option \<Rightarrow> string \<Rightarrow> json list" where
  "send_error utcTimestamp incomingMessage reason =
     (case incomingMessage_message incomingMessage of
        Inl e \<Rightarrow> []
      | Inr msg \<Rightarrow> [error_response utcTimestamp msg reason])"

definition send_ok :: "int \<Rightarrow> json option \<Rightarrow> json list" where
  "send_ok utcTimestamp incomingMessage =
     (case incomingMessage_message incomingMessage of
        Inl e \<Rightarrow> []
      | Inr msg \<Rightarrow> [ok_response utcTimestamp msg])"

text \<open>The three assignments of the second \<^verbatim>\<open>try\<close> block, in order.\<close>

definition option_attributes ::
  "builtins \<Rightarrow> json \<Rightarrow> py_error + (string \<times> real \<times> int)" where
  "option_attributes py incomingMessage =
     (case py_getitem incomingMessage ''payload'' of Inl e \<Rightarrow> Inl e | Inr payload \<Rightarrow>
      case py_getitem payload ''optionType'' of Inl e \<Rightarrow> Inl e | Inr t \<Rightarrow>
      case py_str py t of Inl e \<Rightarrow> Inl e | Inr optionType \<Rightarrow>
      case py_getitem payload ''value'' of Inl e \<Rightarrow> Inl e | Inr v \<Rightarrow>
      case py_float py v of Inl e \<Rightarrow> Inl e | Inr optionValue \<Rightarrow>
      case py_getitem payload ''timeDelay'' of Inl e \<Rightarrow> Inl e | Inr d \<Rightarrow>
      case py_int py d of Inl e \<Rightarrow> Inl e | Inr optionDelay \<Rightarrow>
      Inr (optionType, optionValue, optionDelay))"

text \<open>
  \<^verbatim>\<open>handle\<close>. Its arguments: the conversions, \<^verbatim>\<open>int(time.time())\<close>,
  \<^verbatim>\<open>self.serverComm.sendOption\<close>, and the outcome of \<^verbatim>\<open>json.loads\<close> on the received
  bytes (\<open>Inl\<close> when it raises). The result lists what is handed to
  \<^verbatim>\<open>self.request.send\<close>.
\<close>

definition handle ::
  "builtins \<Rightarrow> int \<Rightarrow> (string \<Rightarrow> real \<Rightarrow> int \<Rightarrow> bool) \<Rightarrow> py_error + json \<Rightarrow> json list"
  where
  "handle py utcTimestamp sendOption loaded =
     (case loaded of
        Inl e \<Rightarrow> send_error utcTimestamp None ''received json message invalid''
      | Inr incomingMessage \<Rightarrow>
          (case py_getitem incomingMessage ''message'' of
             Inl e \<Rightarrow>
               send_error utcTimestamp (Some incomingMessage) ''received json message invalid''
           | Inr msg \<Rightarrow>
               if msg \<noteq> JString ''option''
               then send_error utcTimestamp (Some incomingMessage)
                      ''only option message valid''
               else
                 (case option_attributes py incomingMessage of
                    Inl e \<Rightarrow>
                      send_error utcTimestamp (Some incomingMessage)
                        ''received attributes invalid''
                  | Inr (optionType, optionValue, optionDelay) \<Rightarrow>
                      if optionType \<noteq> ''alertSystemActive''
                      then send_error utcTimestamp (Some incomingMessage)
                             ''only option type 'alertSystemActive' allowed''
                      else if sendOption optionType optionValue optionDelay
                      then send_ok utcTimestamp (Some incomingMessage)
                      else send_error utcTimestamp (Some incomingMessage)
                             ''sending message to server failed'')))"

section \<open>Properties of the threshold-polling sensor\<close>

lemma GPIOPolling_updateState_thres [simp]:
  "thresStateCtr (GPIOPolling_updateState g s) = thresStateCtr s"
  by (simp add: GPIOPolling_updateState_def Let_def)

text \<open>
  While the read counter stays below the threshold the state is kept: from a counter
  between 0 and the threshold, fewer reads than the distance to the threshold never change
  \<open>state\<close>.
\<close>

lemma GPIOPolling_updates_below_threshold:
  "0 \<le> currStateCtr s \<Longrightarrow> currStateCtr s + int (length rs) < thresStateCtr s \<Longrightarrow>
   state (GPIOPolling_updates rs s) = state s"
proof (induction rs arbitrary: s)
  case Nil
  then show ?case by simp
next
  case (Cons r rs)
  let ?s1 = "GPIOPolling_updateState (\<lambda>pin. r) s"
  from Cons.prems have st: "state ?s1 = state s"
    by (simp add: GPIOPolling_updateState_def Let_def)
  from Cons.prems have lo: "0 \<le> currStateCtr ?s1"
    by (simp add: GPIOPolling_updateState_def Let_def)
  from Cons.prems have hi: "currStateCtr ?s1 + int (length rs) < thresStateCtr ?s1"
    by (simp add: GPIOPolling_updateState_def Let_def)
  from Cons.IH [OF lo hi] st show ?case by simp
qed

text \<open>
  C2. The claim: \<open>state\<close> changes only after at least \<open>thresStateCtr\<close> consecutive reads
  that differ from the current \<open>state\<close>. The code does not reset \<open>currStateCtr\<close> when it
  commits a new state, so the counter stays at the threshold and the very next differing
  read flips the state again: with a threshold of 3 and the reads 1, 1, 1, 0 the sensor
  goes to 1 after the third read and back to 0 after a single differing read.
\<close>

theorem GPIOPolling_flip_after_one_read:
  "thresStateCtr gpio_sensor0 = 3 \<and> state gpio_sensor0 = 0 \<and> currStateCtr gpio_sensor0 = 0
   \<and> state (GPIOPolling_updates [1, 1] gpio_sensor0) = 0
   \<and> state (GPIOPolling_updates [1, 1, 1] gpio_sensor0) = 1
   \<and> currStateCtr (GPIOPolling_updates [1, 1, 1] gpio_sensor0) = 3
   \<and> state (GPIOPolling_updates [1, 1, 1, 0] gpio_sensor0) = 0"
  by (simp add: gpio_sensor0_def GPIOPolling_updateState_def Let_def)

section \<open>Properties of the edge-interrupt sensor\<close>

text \<open>
  Callbacks that all arrive within \<open>delayBetweenTriggers\<close> of \<open>lastTimeTriggered\<close> take
  the counting branch: they leave the trigger time and the state alone, add their number
  to the edge counter, and commit the triggered state as soon as the counter has reached
  \<open>edgeCountBeforeTrigger\<close>.
\<close>

lemma interruptCallbacks_within:
  "list_all (\<lambda>t. t - lastTimeTriggered s \<le> delayBetweenTriggers s) ts \<Longrightarrow>
   lastTimeTriggered (interruptCallbacks ts s) = lastTimeTriggered s
   \<and> state (interruptCallbacks ts s) = state s
   \<and> triggerState (interruptCallbacks ts s) = triggerState s
   \<and> edgeCounter (interruptCallbacks ts s) = edgeCounter s + int (length ts)
   \<and> internalState (interruptCallbacks ts s) =
       (if ts \<noteq> [] \<and> edgeCounter s + int (length ts) \<ge> edgeCountBeforeTrigger s
        then triggerState s else internalState s)"
proof (induction ts arbitrary: s)
  case Nil
  then show ?case by simp
next
  case (Cons t ts)
  let ?s1 = "interruptCallback t s"
  from Cons.prems have now: "\<not> t - lastTimeTriggered s > delayBetweenTriggers s"
    by simp
  have frame: "lastTimeTriggered ?s1 = lastTimeTriggered s"
    "delayBetweenTriggers ?s1 = delayBetweenTriggers s"
    "edgeCountBeforeTrigger ?s1 = edgeCountBeforeTrigger s"
    "state ?s1 = state s" "triggerState ?s1 = triggerState s"
    "edgeCounter ?s1 = edgeCounter s + 1"
    using now by (simp_all add: interruptCallback_def Let_def)
  have internal: "internalState ?s1 =
      (if edgeCounter s + 1 \<ge> edgeCountBeforeTrigger s then triggerState s
       else internalState s)"
    using now by (simp add: interruptCallback_def Let_def)
  from Cons.prems have
    "list_all (\<lambda>t. t - lastTimeTriggered ?s1 \<le> delayBetweenTriggers ?s1) ts"
    by (simp add: frame)
  from Cons.IH [OF this] show ?case
    by (cases ts) (simp_all add: frame internal)
qed

text \<open>
  C5, as stated, fails: the claim counts only the callbacks inside the window, but the
  edge counter already stands at 1 after the callback that opened the window. With
  \<open>edgeCountBeforeTrigger = 3\<close>, the opening callback at time 1000 leaves the sensor normal;
  two callbacks within the window (2 < 3) then commit the triggered state, and the next
  \<^verbatim>\<open>updateState\<close> makes \<open>state\<close> triggered.
\<close>

theorem interrupt_two_callbacks_counterexample:
  "state (interruptCallback 1000 irq_sensor0) = 1 - triggerState irq_sensor0
   \<and> internalState (interruptCallback 1000 irq_sensor0) = 1 - triggerState irq_sensor0
   \<and> lastTimeTriggered (interruptCallback 1000 irq_sensor0) = 1000
   \<and> delayBetweenTriggers (interruptCallback 1000 irq_sensor0) = 10
   \<and> edgeCountBeforeTrigger (interruptCallback 1000 irq_sensor0) = 3
   \<and> int (length [1001, 1002 :: int]) < 3
   \<and> state (GPIOInterrupt_updateState 1002
        (interruptCallbacks [1001, 1002] (interruptCallback 1000 irq_sensor0)))
      = triggerState irq_sensor0
   \<and> triggerState irq_sensor0 \<noteq> 1 - triggerState irq_sensor0"
  by (simp add: irq_sensor0_def interruptCallback_def GPIOInterrupt_updateState_def Let_def)

text \<open>
  C5, amended: the edge counter \<open>c\<close> the sensor starts with counts too. For a sensor in
  the normal state, \<open>N\<close> callbacks within \<open>delayBetweenTriggers\<close> of \<open>lastTimeTriggered\<close>
  leave the state normal after the next \<^verbatim>\<open>updateState\<close> when \<open>c + N\<close> is below
  \<open>edgeCountBeforeTrigger\<close>; when there is at least one callback and \<open>c + N\<close> has reached
  \<open>edgeCountBeforeTrigger\<close>, the internal state is \<open>triggerState\<close> and the next
  \<^verbatim>\<open>updateState\<close> makes \<open>state\<close> triggered. A callback that arrives more than
  \<open>delayBetweenTriggers\<close> after \<open>lastTimeTriggered\<close> sets the edge counter to 1 and the
  trigger time to its own, and leaves the internal state as it is.
\<close>

theorem interrupt_edge_count:
  assumes "state s = 1 - triggerState s"
    and "internalState s = 1 - triggerState s"
    and "list_all (\<lambda>t. t - lastTimeTriggered s \<le> delayBetweenTriggers s) ts"
  shows "(edgeCounter s + int (length ts) < edgeCountBeforeTrigger s \<longrightarrow>
            internalState (interruptCallbacks ts s) = 1 - triggerState s
            \<and> state (GPIOInterrupt_updateState u (interruptCallbacks ts s))
                = 1 - triggerState s)
       \<and> (ts \<noteq> [] \<and> edgeCounter s + int (length ts) \<ge> edgeCountBeforeTrigger s \<longrightarrow>
            internalState (interruptCallbacks ts s) = triggerState s
            \<and> state (GPIOInterrupt_updateState u (interruptCallbacks ts s))
                = triggerState s)
       \<and> (t - lastTimeTriggered s > delayBetweenTriggers s \<longrightarrow>
            edgeCounter (interruptCallback t s) = 1
            \<and> lastTimeTriggered (interruptCallback t s) = t
            \<and> internalState (interruptCallback t s) = internalState s
            \<and> state (interruptCallback t s) = state s)"
proof -
  note w = interruptCallbacks_within [OF assms(3)]
  have odd: "1 - triggerState s \<noteq> triggerState s"
    by presburger
  have normal: "state (interruptCallbacks ts s) \<noteq> triggerState (interruptCallbacks ts s)"
    using w assms(1) odd by simp
  have upd: "state (GPIOInterrupt_updateState u (interruptCallbacks ts s))
      = internalState (interruptCallbacks ts s)"
    using normal by (simp add: GPIOInterrupt_updateState_def Let_def)
  have a: "edgeCounter s + int (length ts) < edgeCountBeforeTrigger s \<Longrightarrow>
      internalState (interruptCallbacks ts s) = 1 - triggerState s"
    using w assms(2) by simp
  have b: "ts \<noteq> [] \<and> edgeCounter s + int (length ts) \<ge> edgeCountBeforeTrigger s \<Longrightarrow>
      internalState (interruptCallbacks ts s) = triggerState s"
    using w by simp
  have c: "t - lastTimeTriggered s > delayBetweenTriggers s \<Longrightarrow>
      edgeCounter (interruptCallback t s) = 1
      \<and> lastTimeTriggered (interruptCallback t s) = t
      \<and> internalState (interruptCallback t s) = internalState s
      \<and> state (interruptCallback t s) = state s"
    by (simp add: interruptCallback_def)
  from a b c upd show ?thesis by simp
qed

theorem interrupt_edge_count_witness:
  "state (interruptCallback 1000 irq_sensor0) = 1 - triggerState (interruptCallback 1000 irq_sensor0)
   \<and> internalState (interruptCallback 1000 irq_sensor0)
       = 1 - triggerState (interruptCallback 1000 irq_sensor0)
   \<and> list_all (\<lambda>t. t - lastTimeTriggered (interruptCallback 1000 irq_sensor0)
                 \<le> delayBetweenTriggers (interruptCallback 1000 irq_sensor0)) [1001, 1002]
   \<and> list_all (\<lambda>t. t - lastTimeTriggered (interruptCallback 1000 irq_sensor0)
                 \<le> delayBetweenTriggers (interruptCallback 1000 irq_sensor0)) [1001]
   \<and> state (GPIOInterrupt_updateState 1001
        (interruptCallbacks [1001] (interruptCallback 1000 irq_sensor0))) = 0
   \<and> internalState (interruptCallbacks [1001, 1002] (interruptCallback 1000 irq_sensor0)) = 1
   \<and> state (GPIOInterrupt_updateState 1002
        (interruptCallbacks [1001, 1002] (interruptCallback 1000 irq_sensor0))) = 1
   \<and> edgeCounter (interruptCallback 1020 (interruptCallback 1000 irq_sensor0)) = 1
   \<and> internalState (interruptCallback 1020 (interruptCallback 1000 irq_sensor0)) = 0"
proof -
  let ?s = "interruptCallback 1000 irq_sensor0"
  have h1: "state ?s = 1 - triggerState ?s"
    by (simp add: irq_sensor0_def interruptCallback_def)
  have h2: "internalState ?s = 1 - triggerState ?s"
    by (simp add: irq_sensor0_def interruptCallback_def)
  have h3: "list_all (\<lambda>t. t - lastTimeTriggered ?s \<le> delayBetweenTriggers ?s) [1001, 1002]"
    by (simp add: irq_sensor0_def interruptCallback_def)
  have h4: "list_all (\<lambda>t. t - lastTimeTriggered ?s \<le> delayBetweenTriggers ?s) [1001]"
    by (simp add: irq_sensor0_def interruptCallback_def)
  have vals: "edgeCounter ?s = 1" "edgeCountBeforeTrigger ?s = 3" "triggerState ?s = 1"
    "lastTimeTriggered ?s = 1000" "delayBetweenTriggers ?s = 10" "internalState ?s = 0"
    by (simp_all add: irq_sensor0_def interruptCallback_def)
  from interrupt_edge_count [OF h1 h2 h4, of 1001 1020]
    interrupt_edge_count [OF h1 h2 h3, of 1002 1020]
  show ?thesis using h1 h2 h3 h4 by (simp add: vals)
qed

text \<open>
  C10. The callback never moves the internal state towards normal: it leaves
  \<open>_internalState\<close> as it is or sets it to \<open>triggerState\<close>. \<^verbatim>\<open>updateState\<close> changes
  \<open>_internalState\<close> only by setting it to \<open>1 - triggerState\<close>, and only when \<open>state\<close> is
  \<open>triggerState\<close> and more than \<open>timeSensorTriggered\<close> seconds have passed since
  \<open>lastTimeTriggered\<close>; \<open>state\<close> then follows \<open>_internalState\<close>. The other methods used
  while the sensor runs (\<^verbatim>\<open>getState\<close>, \<^verbatim>\<open>forceSendAlert\<close>, \<^verbatim>\<open>forceSendState\<close>) write
  nothing; \<^verbatim>\<open>initializeSensor\<close> runs once, before the first interrupt and the first poll,
  and gives both states their first value, the normal one.
\<close>

theorem interrupt_only_updateState_reverts:
  "(internalState (interruptCallback t s) = internalState s
      \<or> internalState (interruptCallback t s) = triggerState s)
   \<and> triggerState (interruptCallback t s) = triggerState s
   \<and> (internalState (GPIOInterrupt_updateState u s) \<noteq> internalState s \<longrightarrow>
        state s = triggerState s
        \<and> u - lastTimeTriggered s > timeSensorTriggered s
        \<and> internalState (GPIOInterrupt_updateState u s) = 1 - triggerState s)
   \<and> (state s = triggerState s \<and> u - lastTimeTriggered s > timeSensorTriggered s \<longrightarrow>
        internalState (GPIOInterrupt_updateState u s) = 1 - triggerState s)
   \<and> state (GPIOInterrupt_updateState u s) = internalState (GPIOInterrupt_updateState u s)
   \<and> snd (GPIOInterrupt_forceSendAlert s) = s
   \<and> snd (GPIOInterrupt_forceSendState s) = s"
  by (simp add: interruptCallback_def GPIOInterrupt_updateState_def Let_def
      GPIOInterrupt_forceSendAlert_def GPIOInterrupt_forceSendState_def)


text \<open>
  An instance, on the triggered sensor: a further edge at 1003 keeps the internal state, a
  poll at 1004 keeps it too (4 seconds are not more than 5), and the poll at 1010 sets it
  back to normal.
\<close>

theorem interrupt_only_updateState_reverts_witness:
  "state irq_sensor_triggered = triggerState irq_sensor_triggered
   \<and> 1010 - lastTimeTriggered irq_sensor_triggered > timeSensorTriggered irq_sensor_triggered
   \<and> internalState irq_sensor_triggered = 1
   \<and> internalState (interruptCallback 1003 irq_sensor_triggered) = 1
   \<and> internalState (GPIOInterrupt_updateState 1004 irq_sensor_triggered) = 1
   \<and> internalState (GPIOInterrupt_updateState 1010 irq_sensor_triggered) = 0
   \<and> state (GPIOInterrupt_updateState 1010 irq_sensor_triggered) = 0"
proof -
  have vals: "state irq_sensor_triggered = 1" "triggerState irq_sensor_triggered = 1"
    "internalState irq_sensor_triggered = 1" "lastTimeTriggered irq_sensor_triggered = 1000"
    "timeSensorTriggered irq_sensor_triggered = 5"
    by (simp_all add: irq_sensor_triggered_def irq_sensor0_def interruptCallback_def
        GPIOInterrupt_updateState_def Let_def)
  have keep: "internalState (GPIOInterrupt_updateState 1004 irq_sensor_triggered) = 1"
    using vals by (simp add: GPIOInterrupt_updateState_def Let_def)
  from interrupt_only_updateState_reverts [of 1003 irq_sensor_triggered 1010] keep
  show ?thesis by (simp add: vals)
qed

section \<open>Properties of the periodic-data sensor\<close>

text \<open>
  What the code does keep: a background read starts only when more than \<open>interval\<close>
  seconds have passed since the last one started, and the start time is recorded.
\<close>

lemma DS18b20_refresh_after_interval:
  "snd (DS18b20_updateState t s) = (t - lastTemperatureUpdate s > interval s)
   \<and> lastTemperatureUpdate (fst (DS18b20_updateState t s))
       = (if t - lastTemperatureUpdate s > interval s then t else lastTemperatureUpdate s)"
  by (simp add: DS18b20_updateState_def DS18b20_checkThreshold_def Let_def
      split: Ordering.split)

text \<open>
  C4. The claim: two background reads never start less than \<open>refreshInterval\<close> seconds
  apart. \<^verbatim>\<open>updateState\<close> compares the elapsed time with \<open>interval\<close>, the reporting
  period, and never reads \<open>refreshInterval\<close>. With \<open>interval = 5\<close> and
  \<open>refreshInterval = 60\<close>, the calls at the times 100 and 106 both start a read, 6 seconds
  apart.
\<close>

theorem DS18b20_refresh_ignores_refreshInterval:
  "refreshInterval ds_sensor0 = 60 \<and> interval ds_sensor0 = 5
   \<and> DS18b20_refreshes [100, 106] ds_sensor0 = [100, 106]
   \<and> (106::int) - 100 < refreshInterval ds_sensor0"
  by (simp add: ds_sensor0_def DS18b20_updateState_def DS18b20_checkThreshold_def Let_def)

text \<open>
  C6. With \<open>hasThreshold\<close> set and the ordering \<open>GT\<close>: a sensor that is not triggered
  becomes triggered exactly when the current value is greater than the threshold (so not at
  equality), and a triggered sensor goes back to normal exactly when the current value is at
  most the threshold. The current value is the one \<^verbatim>\<open>updateState\<close> copies into
  \<open>sensorData\<close>.
\<close>

theorem DS18b20_threshold_GT:
  assumes "hasThreshold s" and "ordering_attr s = GT"
  shows "sensorData (fst (DS18b20_updateState t s)) = FloatData (priv_sensorData s)
       \<and> triggerState (fst (DS18b20_updateState t s)) = triggerState s
       \<and> (state s \<noteq> triggerState s \<longrightarrow>
            (state (fst (DS18b20_updateState t s)) = triggerState s
               \<longleftrightarrow> priv_sensorData s > threshold s))
       \<and> (state s = triggerState s \<longrightarrow>
            (state (fst (DS18b20_updateState t s)) = 1 - triggerState s
               \<longleftrightarrow> priv_sensorData s \<le> threshold s))"
proof -
  have odd: "triggerState s \<noteq> 1 - triggerState s"
    by presburger
  show ?thesis
    using assms odd
    by (simp add: DS18b20_updateState_def DS18b20_checkThreshold_def Let_def)
qed

text \<open>
  An instance: at 30 degrees, the threshold, the normal sensor stays normal and the
  triggered one goes back to normal; at 30.5 degrees the normal sensor triggers and the
  triggered one stays triggered.
\<close>

theorem DS18b20_threshold_GT_witness:
  "hasThreshold ds_sensor0 \<and> ordering_attr ds_sensor0 = GT \<and> threshold ds_sensor0 = 30
   \<and> state ds_sensor0 = 0 \<and> triggerState ds_sensor0 = 1
   \<and> state (fst (DS18b20_updateState 100 (ds_sensor0\<lparr>priv_sensorData := 30\<rparr>))) \<noteq> 1
   \<and> state (fst (DS18b20_updateState 100 (ds_sensor0\<lparr>priv_sensorData := 30.5\<rparr>))) = 1
   \<and> state (fst (DS18b20_updateState 100
        (ds_sensor0\<lparr>state := 1, priv_sensorData := 30\<rparr>))) = 0
   \<and> state (fst (DS18b20_updateState 100
        (ds_sensor0\<lparr>state := 1, priv_sensorData := 30.5\<rparr>))) \<noteq> 0"
proof -
  have a: "state (fst (DS18b20_updateState 100 (ds_sensor0\<lparr>priv_sensorData := 30\<rparr>)))
      \<noteq> 1"
    using DS18b20_threshold_GT [of "ds_sensor0\<lparr>priv_sensorData := 30\<rparr>" 100]
    by (simp add: ds_sensor0_def)
  have b: "state (fst (DS18b20_updateState 100 (ds_sensor0\<lparr>priv_sensorData := 30.5\<rparr>)))
      = 1"
    using DS18b20_threshold_GT [of "ds_sensor0\<lparr>priv_sensorData := 30.5\<rparr>" 100]
    by (simp add: ds_sensor0_def)
  have c: "state (fst (DS18b20_updateState 100
      (ds_sensor0\<lparr>state := 1, priv_sensorData := 30\<rparr>))) = 0"
    using DS18b20_threshold_GT [of "ds_sensor0\<lparr>state := 1, priv_sensorData := 30\<rparr>" 100]
    by (simp add: ds_sensor0_def)
  have d: "state (fst (DS18b20_updateState 100
      (ds_sensor0\<lparr>state := 1, priv_sensorData := 30.5\<rparr>))) \<noteq> 0"
    using DS18b20_threshold_GT [of "ds_sensor0\<lparr>state := 1, priv_sensorData := 30.5\<rparr>" 100]
    by (simp add: ds_sensor0_def)
  have e: "hasThreshold ds_sensor0 \<and> ordering_attr ds_sensor0 = GT
      \<and> threshold ds_sensor0 = 30 \<and> state ds_sensor0 = 0 \<and> triggerState ds_sensor0 = 1"
    by (simp add: ds_sensor0_def)
  from a b c d e show ?thesis by simp
qed

section \<open>Properties of the polling loop\<close>

text \<open>
  The first loop treats every sensor by itself: the sensors after the loop and the
  dispatches of the loop are those of the loop body, sensor by sensor. Neither loop
  dispatches a full sensor state.
\<close>

lemma poll_sensor_no_snapshot:
  "sendSensorsState \<notin> set (snd (snd (poll_sensor m e s)))"
  by (simp add: poll_sensor_def Let_def split: prod.split option.split)

lemma poll_sensors_no_snapshot:
  "sendSensorsState \<notin> set (snd (poll_sensors m e ss))"
  by (induction ss) (simp_all add: Let_def poll_sensor_no_snapshot)

lemma force_states_no_snapshot:
  "sendSensorsState \<notin> set (snd (force_states m e ss))"
  by (induction ss) (simp_all add: Let_def split: option.split)

lemma poll_sensors_per_sensor:
  "fst (poll_sensors m e ss) = map (\<lambda>s. fst (poll_sensor m e s)) ss
   \<and> snd (poll_sensors m e ss) = concat (map (\<lambda>s. snd (snd (poll_sensor m e s))) ss)"
  by (induction ss) (simp_all add: Let_def)

text \<open>
  C1. For a sensor whose \<^verbatim>\<open>forceSendAlert\<close> returns \<open>None\<close> and whose
  \<open>handlesStateMsgs\<close> is false: when the state read before \<^verbatim>\<open>updateState\<close> equals the
  state read after it, the loop body dispatches nothing; when they differ it dispatches
  exactly one event, which is, on a change into \<open>triggerState\<close>, a sensor alert with state
  1 if \<open>triggerAlert\<close> is set and a state change with state 1 otherwise, and, on a change
  into the normal state, a sensor alert with state 0 if \<open>triggerAlertNormal\<close> is set and a
  state change with state 0 otherwise.
\<close>

theorem poll_sensor_diff_path:
  assumes "forceSendAlert m e (updateState m e s) = (None, s')"
    and "\<not> handlesStateMsgs s'"
  shows "fst (poll_sensor m e s) = s'
       \<and> (getState m s = getState m (updateState m e s) \<longrightarrow>
            snd (snd (poll_sensor m e s)) = [])
       \<and> (getState m s \<noteq> getState m (updateState m e s) \<longrightarrow>
            length (snd (snd (poll_sensor m e s))) = 1
            \<and> snd (snd (poll_sensor m e s)) =
                (if getState m (updateState m e s) = triggerState s'
                 then (if triggerAlert s'
                       then [sendSensorAlert (newSensorAlert s' 1)]
                       else [sendStateChange (newStateChange s' 1)])
                 else (if triggerAlertNormal s'
                       then [sendSensorAlert (newSensorAlert s' 0)]
                       else [sendStateChange (newStateChange s' 0)])))
       \<and> sa_state (newSensorAlert s' 1) = 1 \<and> sa_state (newSensorAlert s' 0) = 0
       \<and> sc_state (newStateChange s' 1) = 1 \<and> sc_state (newStateChange s' 0) = 0"
  using assms
  by (simp add: poll_sensor_def Let_def newSensorAlert_def newStateChange_def)

text \<open>
  An instance: the polling sensor with a threshold of one read and \<open>triggerAlert\<close> set.
  When the pin reads 1 the state goes from 0 to 1 and one sensor alert with state 1 is
  dispatched; when the pin reads 0 nothing is dispatched.
\<close>

theorem poll_sensor_diff_path_witness:
  "forceSendAlert GPIOPolling_methods (\<lambda>pin. 1)
       (updateState GPIOPolling_methods (\<lambda>pin. 1) gpio_sensor1)
     = (None, GPIOPolling_updateState (\<lambda>pin. 1) gpio_sensor1)
   \<and> \<not> handlesStateMsgs (GPIOPolling_updateState (\<lambda>pin. 1) gpio_sensor1)
   \<and> getState GPIOPolling_methods gpio_sensor1 = 0
   \<and> getState GPIOPolling_methods (updateState GPIOPolling_methods (\<lambda>pin. 1) gpio_sensor1) = 1
   \<and> snd (snd (poll_sensor GPIOPolling_methods (\<lambda>pin. 1) gpio_sensor1)) =
       [sendSensorAlert \<lparr>sa_clientSensorId = 0, sa_state = 1, sa_hasOptionalData = False,
          sa_optionalData = None, sa_changeState = True, sa_hasLatestData = False,
          sa_dataType = NONE, sa_sensorData = NoData\<rparr>]
   \<and> snd (snd (poll_sensor GPIOPolling_methods (\<lambda>pin. 0) gpio_sensor1)) = []"
proof -
  let ?s' = "GPIOPolling_updateState (\<lambda>pin. 1) gpio_sensor1"
  have h1: "forceSendAlert GPIOPolling_methods (\<lambda>pin. 1)
       (updateState GPIOPolling_methods (\<lambda>pin. 1) gpio_sensor1) = (None, ?s')"
    by (simp add: GPIOPolling_methods_def GPIOPolling_forceSendAlert_def)
  have h2: "\<not> handlesStateMsgs ?s'"
    by (simp add: GPIOPolling_updateState_def gpio_sensor1_def gpio_sensor0_def Let_def)
  have g0: "getState GPIOPolling_methods gpio_sensor1 = 0"
    by (simp add: GPIOPolling_methods_def GPIOPolling_getState_def gpio_sensor1_def
        gpio_sensor0_def)
  have g1: "getState GPIOPolling_methods
      (updateState GPIOPolling_methods (\<lambda>pin. 1) gpio_sensor1) = 1"
    by (simp add: GPIOPolling_methods_def GPIOPolling_getState_def
        GPIOPolling_updateState_def gpio_sensor1_def gpio_sensor0_def Let_def)
  have al: "newSensorAlert ?s' 1 =
      \<lparr>sa_clientSensorId = 0, sa_state = 1, sa_hasOptionalData = False,
       sa_optionalData = None, sa_changeState = True, sa_hasLatestData = False,
       sa_dataType = NONE, sa_sensorData = NoData\<rparr>"
    by (simp add: newSensorAlert_def GPIOPolling_updateState_def gpio_sensor1_def
        gpio_sensor0_def Let_def)
  have ta: "triggerState ?s' = 1" "triggerAlert ?s'"
    by (simp_all add: GPIOPolling_updateState_def gpio_sensor1_def gpio_sensor0_def Let_def)
  have ev: "snd (snd (poll_sensor GPIOPolling_methods (\<lambda>pin. 1) gpio_sensor1)) =
      [sendSensorAlert (newSensorAlert ?s' 1)]"
    using poll_sensor_diff_path [OF h1 h2] g0 g1 ta by simp
  let ?q = "GPIOPolling_updateState (\<lambda>pin. 0) gpio_sensor1"
  have k1: "forceSendAlert GPIOPolling_methods (\<lambda>pin. 0)
       (updateState GPIOPolling_methods (\<lambda>pin. 0) gpio_sensor1) = (None, ?q)"
    by (simp add: GPIOPolling_methods_def GPIOPolling_forceSendAlert_def)
  have k2: "\<not> handlesStateMsgs ?q"
    by (simp add: GPIOPolling_updateState_def gpio_sensor1_def gpio_sensor0_def Let_def)
  have q1: "getState GPIOPolling_methods
      (updateState GPIOPolling_methods (\<lambda>pin. 0) gpio_sensor1) = 0"
    by (simp add: GPIOPolling_methods_def GPIOPolling_getState_def
        GPIOPolling_updateState_def gpio_sensor1_def gpio_sensor0_def Let_def)
  have quiet: "snd (snd (poll_sensor GPIOPolling_methods (\<lambda>pin. 0) gpio_sensor1)) = []"
    using poll_sensor_diff_path [OF k1 k2] g0 q1 by simp
  from h1 h2 g0 g1 ev al quiet show ?thesis by simp
qed

text \<open>
  C8. When \<^verbatim>\<open>forceSendAlert\<close> returns an alert, the loop body dispatches exactly that
  alert and nothing else, whether or not the state changed, and the local \<^verbatim>\<open>oldState\<close>
  ends as the state read after \<^verbatim>\<open>updateState\<close>.
\<close>

theorem poll_sensor_forced_alert:
  assumes "forceSendAlert m e (updateState m e s) = (Some a, s')"
  shows "poll_sensor m e s = (s', getState m (updateState m e s), [sendSensorAlert a])"
  using assms by (simp add: poll_sensor_def Let_def)

text \<open>
  An instance: a sensor that forces an alert in a round in which its state goes from 0 to 1.
\<close>

theorem poll_sensor_forced_alert_witness:
  "forceSendAlert (forcing_methods (newSensorAlert gpio_sensor0 1)) (\<lambda>pin. 1)
       (updateState (forcing_methods (newSensorAlert gpio_sensor0 1)) (\<lambda>pin. 1) gpio_sensor1)
     = (Some (newSensorAlert gpio_sensor0 1), GPIOPolling_updateState (\<lambda>pin. 1) gpio_sensor1)
   \<and> getState (forcing_methods (newSensorAlert gpio_sensor0 1)) gpio_sensor1 = 0
   \<and> poll_sensor (forcing_methods (newSensorAlert gpio_sensor0 1)) (\<lambda>pin. 1) gpio_sensor1
     = (GPIOPolling_updateState (\<lambda>pin. 1) gpio_sensor1, 1,
        [sendSensorAlert (newSensorAlert gpio_sensor0 1)])"
proof -
  let ?m = "forcing_methods (newSensorAlert gpio_sensor0 1)"
  let ?s' = "GPIOPolling_updateState (\<lambda>pin. 1) gpio_sensor1"
  have h: "forceSendAlert ?m (\<lambda>pin. 1) (updateState ?m (\<lambda>pin. 1) gpio_sensor1)
      = (Some (newSensorAlert gpio_sensor0 1), ?s')"
    by (simp add: forcing_methods_def GPIOPolling_methods_def)
  have g0: "getState ?m gpio_sensor1 = 0"
    by (simp add: forcing_methods_def GPIOPolling_methods_def GPIOPolling_getState_def
        gpio_sensor1_def gpio_sensor0_def)
  have g1: "getState ?m (updateState ?m (\<lambda>pin. 1) gpio_sensor1) = 1"
    by (simp add: forcing_methods_def GPIOPolling_methods_def GPIOPolling_getState_def
        GPIOPolling_updateState_def gpio_sensor1_def gpio_sensor0_def Let_def)
  from poll_sensor_forced_alert [OF h] h g0 g1 show ?thesis by simp
qed

text \<open>
  C9. For a sensor with \<open>handlesStateMsgs\<close> set whose \<^verbatim>\<open>forceSendAlert\<close> returns \<open>None\<close>,
  the loop body dispatches nothing, also when the state changed.
\<close>

theorem poll_sensor_handlesStateMsgs:
  assumes "forceSendAlert m e (updateState m e s) = (None, s')"
    and "handlesStateMsgs s'"
  shows "snd (snd (poll_sensor m e s)) = [] \<and> fst (poll_sensor m e s) = s'"
  using assms by (simp add: poll_sensor_def Let_def)

text \<open>An instance: the state goes from 0 to 1 and nothing is dispatched.\<close>

theorem poll_sensor_handlesStateMsgs_witness:
  "forceSendAlert GPIOPolling_methods (\<lambda>pin. 1)
       (updateState GPIOPolling_methods (\<lambda>pin. 1) gpio_sensor2)
     = (None, GPIOPolling_updateState (\<lambda>pin. 1) gpio_sensor2)
   \<and> handlesStateMsgs (GPIOPolling_updateState (\<lambda>pin. 1) gpio_sensor2)
   \<and> getState GPIOPolling_methods gpio_sensor2 = 0
   \<and> getState GPIOPolling_methods (updateState GPIOPolling_methods (\<lambda>pin. 1) gpio_sensor2) = 1
   \<and> snd (snd (poll_sensor GPIOPolling_methods (\<lambda>pin. 1) gpio_sensor2)) = []"
proof -
  let ?s' = "GPIOPolling_updateState (\<lambda>pin. 1) gpio_sensor2"
  have h1: "forceSendAlert GPIOPolling_methods (\<lambda>pin. 1)
       (updateState GPIOPolling_methods (\<lambda>pin. 1) gpio_sensor2) = (None, ?s')"
    by (simp add: GPIOPolling_methods_def GPIOPolling_forceSendAlert_def)
  have h2: "handlesStateMsgs ?s'"
    by (simp add: GPIOPolling_updateState_def gpio_sensor2_def gpio_sensor0_def Let_def)
  have g0: "getState GPIOPolling_methods gpio_sensor2 = 0"
    by (simp add: GPIOPolling_methods_def GPIOPolling_getState_def gpio_sensor2_def
        gpio_sensor0_def)
  have g1: "getState GPIOPolling_methods
      (updateState GPIOPolling_methods (\<lambda>pin. 1) gpio_sensor2) = 1"
    by (simp add: GPIOPolling_methods_def GPIOPolling_getState_def
        GPIOPolling_updateState_def gpio_sensor2_def gpio_sensor0_def Let_def)
  from poll_sensor_handlesStateMsgs [OF h1 h2] h1 h2 g0 g1 show ?thesis by simp
qed

text \<open>
  C7, as stated, fails: a full sensor state is sent only when \<^emph>\<open>more\<close> than 60 seconds
  have passed, so two of them are at least 61 seconds apart. In a run with a connection
  and one round in every second from 1000 to 1061, the full state is sent at 1000 and at
  1061 only: the 60 seconds from 1001 to 1060 see none.
\<close>

theorem snapshot_window_counterexample:
  "list_all isConnected (map quiet_cycle [1000..1061])
   \<and> map cycleTimestamp (map quiet_cycle [1000..1061]) = [1000..1061]
   \<and> snapshot_times (map quiet_cycle [1000..1061])
        (fst (execute GPIOPolling_methods (map quiet_cycle [1000..1061]) [gpio_sensor0]))
      = [1000, 1061]"
  by code_simp

text \<open>
  One round and the timer; then whole runs: the rounds that send a full sensor state are
  more than 60 seconds apart, and after a round with a connection the last full state is
  at most 60 seconds old.
\<close>

lemma execute_cycle_timer:
  "(sendSensorsState \<in> set (fst (execute_cycle m c st))
      \<longleftrightarrow> isConnected c \<and> cycleTimestamp c - lastFullStateSent st > 60)
   \<and> lastFullStateSent (snd (execute_cycle m c st)) =
       (if isConnected c \<and> cycleTimestamp c - lastFullStateSent st > 60
        then cycleTimestamp c else lastFullStateSent st)
   \<and> count_list (fst (execute_cycle m c st)) sendSensorsState \<le> 1"
  by (simp add: execute_cycle_def Let_def
      poll_sensors_no_snapshot force_states_no_snapshot)

lemma execute_loop_spaced:
  "spaced (lastFullStateSent st) (snapshot_times cs (fst (execute_loop m cs st)))"
proof (induction cs arbitrary: st)
  case Nil
  then show ?case by simp
next
  case (Cons c cs)
  note step = execute_cycle_timer [of m c st]
  note IH = Cons.IH [of "snd (execute_cycle m c st)"]
  show ?case
  proof (cases "isConnected c \<and> cycleTimestamp c - lastFullStateSent st > 60")
    case True
    with step IH show ?thesis by (simp add: Let_def)
  next
    case False
    with step IH show ?thesis by (simp add: Let_def)
  qed
qed

lemma execute_loop_fresh:
  "cs \<noteq> [] \<Longrightarrow> isConnected (last cs) \<Longrightarrow>
   cycleTimestamp (last cs) - lastFullStateSent (snd (execute_loop m cs st)) \<le> 60"
proof (induction cs arbitrary: st)
  case Nil
  then show ?case by simp
next
  case (Cons c cs)
  show ?case
  proof (cases "cs = []")
    case True
    with Cons.prems execute_cycle_timer [of m c st] show ?thesis
      by (simp add: Let_def)
  next
    case False
    with Cons.prems Cons.IH [of "snd (execute_cycle m c st)"] show ?thesis
      by (simp add: Let_def)
  qed
qed

text \<open>
  C7, amended. A round dispatches the full sensor state exactly when there is a connection
  and more than 60 seconds have passed since \<open>lastFullStateSent\<close>, at most once, and then
  sets \<open>lastFullStateSent\<close> to the time of the round; no other round changes it. In every
  run of \<^verbatim>\<open>execute\<close> (the timer starts at 0) two consecutive full states are more than 60
  seconds apart, and after every round with a connection the last full state is at most 60
  seconds old.
\<close>

theorem snapshot_timer:
  "(sendSensorsState \<in> set (fst (execute_cycle m c st))
      \<longleftrightarrow> isConnected c \<and> cycleTimestamp c - lastFullStateSent st > 60)
   \<and> lastFullStateSent (snd (execute_cycle m c st)) =
       (if isConnected c \<and> cycleTimestamp c - lastFullStateSent st > 60
        then cycleTimestamp c else lastFullStateSent st)
   \<and> count_list (fst (execute_cycle m c st)) sendSensorsState \<le> 1
   \<and> spaced 0 (snapshot_times cs (fst (execute m cs ss)))
   \<and> (cs \<noteq> [] \<and> isConnected (last cs) \<longrightarrow>
        cycleTimestamp (last cs) - lastFullStateSent (snd (execute m cs ss)) \<le> 60)"
proof -
  have "spaced 0 (snapshot_times cs (fst (execute m cs ss)))"
    using execute_loop_spaced [of "\<lparr>sensors = ss, lastFullStateSent = 0\<rparr>" cs m]
    by (simp add: execute_def)
  moreover have "cs \<noteq> [] \<and> isConnected (last cs) \<longrightarrow>
      cycleTimestamp (last cs) - lastFullStateSent (snd (execute m cs ss)) \<le> 60"
    by (simp add: execute_def execute_loop_fresh)
  ultimately show ?thesis
    using execute_cycle_timer [of m c st] by simp
qed

text \<open>
  An instance: 61 seconds after the last full state one is sent; in the run with the
  rounds at 1000 and 1061 the timer ends at the time of the last round.
\<close>

theorem snapshot_timer_witness:
  "isConnected (quiet_cycle 1061)
   \<and> sendSensorsState \<in> set (fst (execute_cycle GPIOPolling_methods (quiet_cycle 1061)
        \<lparr>sensors = [gpio_sensor0], lastFullStateSent = 1000\<rparr>))
   \<and> lastFullStateSent (snd (execute_cycle GPIOPolling_methods (quiet_cycle 1061)
        \<lparr>sensors = [gpio_sensor0], lastFullStateSent = 1000\<rparr>)) = 1061
   \<and> [quiet_cycle 1000, quiet_cycle 1061] \<noteq> []
   \<and> isConnected (last [quiet_cycle 1000, quiet_cycle 1061])
   \<and> cycleTimestamp (last [quiet_cycle 1000, quiet_cycle 1061])
       - lastFullStateSent (snd (execute GPIOPolling_methods
           [quiet_cycle 1000, quiet_cycle 1061] [gpio_sensor0])) \<le> 60
   \<and> spaced 0 (snapshot_times [quiet_cycle 1000, quiet_cycle 1061]
        (fst (execute GPIOPolling_methods [quiet_cycle 1000, quiet_cycle 1061]
           [gpio_sensor0])))"
proof -
  have c: "isConnected (quiet_cycle 1061)" "cycleTimestamp (quiet_cycle 1061) = 1061"
    by (simp_all add: quiet_cycle_def)
  from snapshot_timer [of GPIOPolling_methods "quiet_cycle 1061"
      "\<lparr>sensors = [gpio_sensor0], lastFullStateSent = 1000\<rparr>"
      "[quiet_cycle 1000, quiet_cycle 1061]" "[gpio_sensor0]"]
  show ?thesis by (simp add: c)
qed

section \<open>Properties of the local relay\<close>

text \<open>
  C3. The claim: for bytes that are not valid JSON an error response is sent. The handler
  for that case builds its answer from \<^verbatim>\<open>incomingMessage["message"]\<close>; when
  \<^verbatim>\<open>json.loads\<close> raised, the variable is not bound, and when the decoded value has no
  \<^verbatim>\<open>"message"\<close> item (the empty object, or a list) the lookup raises again. The inner
  \<^verbatim>\<open>except\<close> swallows that, and nothing is sent.
\<close>

theorem handle_invalid_json_sends_nothing:
  "handle py t sendOption (Inl ValueError) = []
   \<and> handle py t sendOption (Inr (JObject [])) = []
   \<and> handle py t sendOption (Inr (JArray [JInt 1])) = []"
  by (simp add: handle_def send_error_def incomingMessage_message_def)

text \<open>
  The branch \<^verbatim>\<open>"received json message invalid"\<close> never answers; every request that has a
  \<^verbatim>\<open>"message"\<close> item gets exactly one answer, as the claim says.
\<close>

lemma handle_invalid_never_replies:
  "handle py t sendOption (Inl e) = []"
  "py_getitem j ''message'' = Inl e \<Longrightarrow> handle py t sendOption (Inr j) = []"
  by (simp_all add: handle_def send_error_def incomingMessage_message_def)

lemma handle_with_message:
  assumes "py_getitem j ''message'' = Inr msg"
  shows "handle py t sendOption (Inr j) =
     (if msg \<noteq> JString ''option''
      then [error_response t msg ''only option message valid'']
      else case option_attributes py j of
             Inl e \<Rightarrow> [error_response t msg ''received attributes invalid'']
           | Inr (optionType, optionValue, optionDelay) \<Rightarrow>
               if optionType \<noteq> ''alertSystemActive''
               then [error_response t msg ''only option type 'alertSystemActive' allowed'']
               else if sendOption optionType optionValue optionDelay
               then [ok_response t msg]
               else [error_response t msg ''sending message to server failed''])"
  using assms
  by (simp add: handle_def send_error_def send_ok_def incomingMessage_message_def
      split: sum.split prod.split)

end
